theory Spec2Isabelle
  imports Complex_Main "HOL-Library.Word" "HOL-Library.AList"
begin

unbundle bit_operations_syntax

section \<open>Python values, exceptions and containers\<close>

text \<open>
  Exceptions are values: a computation returns \<open>Inl e\<close> where the Python code would raise
  \<open>e\<close>, and \<open>Inr v\<close> where it returns \<open>v\<close>.
\<close>

datatype py_error = IndexError | KeyError

definition bind :: "py_error + 'a \<Rightarrow> ('a \<Rightarrow> py_error + 'b) \<Rightarrow> py_error + 'b" where
  "bind m f = (case m of Inl e \<Rightarrow> Inl e | Inr v \<Rightarrow> f v)"

text \<open>
  A \<open>bytearray\<close> is a list of bytes; indexing gives a Python \<open>int\<close> in \<open>0..255\<close>,
  a negative index counts from the end, and an index out of range raises \<open>IndexError\<close>.
\<close>

type_synonym bytearray = "8 word list"

definition len :: "'a list \<Rightarrow> int" where
  "len xs = int (length xs)"

definition getitem :: "bytearray \<Rightarrow> int \<Rightarrow> py_error + int" where
  "getitem buf i =
     (let j = (if i < 0 then len buf + i else i)
      in if 0 \<le> j \<and> j < len buf then Inr (uint (buf ! nat j)) else Inl IndexError)"

text \<open>
  The scale constants of \<open>IMUProtocol\<close>. A decoded physical quantity is the float product
  \<open>raw * SCALE\<close>; the model keeps the raw integer and the name of the constant
  (\<open>Scaled raw SCALE\<close>), so that no floating-point rounding is modelled.
  \<open>DIV_1000\<close> stands for the division \<open>raw / 1000.0\<close> of the position offset.
\<close>

datatype scale =
    SCALE_ACCEL | SCALE_ANGLE_SPEED | SCALE_QUAT | SCALE_ANGLE | SCALE_MAG
  | SCALE_TEMPERATURE | SCALE_AIR_PRESSURE | SCALE_HEIGHT | DIV_1000

fun scale_value :: "scale \<Rightarrow> rat" where
  "scale_value SCALE_ACCEL = 478515625 / 10 ^ 11"
| "scale_value SCALE_ANGLE_SPEED = 6103515625 / 10 ^ 11"
| "scale_value SCALE_QUAT = 30517578125 / 10 ^ 15"
| "scale_value SCALE_ANGLE = 54931640625 / 10 ^ 13"
| "scale_value SCALE_MAG = 15106201171875 / 10 ^ 14"
| "scale_value SCALE_TEMPERATURE = 1 / 100"
| "scale_value SCALE_AIR_PRESSURE = 2384185791 / 10 ^ 13"
| "scale_value SCALE_HEIGHT = 10728836 / 10 ^ 10"
| "scale_value DIV_1000 = 1 / 1000"

text \<open>
  A Python \<open>dict\<close> keeps its keys in insertion order and holds each key once: it is an
  association list. \<open>d[k] = v\<close> replaces the value of an existing key in place or appends
  a new entry (\<open>AList.update\<close>); \<open>del d[k]\<close> removes the entry (\<open>AList.delete\<close>; the
  callers test \<open>k in d\<close> first, since Python raises \<open>KeyError\<close> for a missing key);
  \<open>d[k]\<close> and \<open>d.get(k)\<close> look the key up (\<open>map_of\<close>).
\<close>

definition setitem :: "('k \<times> 'v) list \<Rightarrow> 'k \<Rightarrow> 'v \<Rightarrow> ('k \<times> 'v) list" where
  "setitem d k v = AList.update k v d"

definition delitem :: "('k \<times> 'v) list \<Rightarrow> 'k \<Rightarrow> ('k \<times> 'v) list" where
  "delitem d k = AList.delete k d"

definition contains :: "('k \<times> 'v) list \<Rightarrow> 'k \<Rightarrow> bool" where
  "contains d k = (map_of d k \<noteq> None)"

definition keys :: "('k \<times> 'v) list \<Rightarrow> 'k list" where
  "keys d = map fst d"

fun setitems :: "('k \<times> 'v) list \<Rightarrow> ('k \<times> 'v) list \<Rightarrow> ('k \<times> 'v) list" where
  "setitems d [] = d"
| "setitems d (kv # kvs) = setitems (setitem d (fst kv) (snd kv)) kvs"

text \<open>The values stored in the dictionary returned by the decoder.\<close>

datatype pyval =
    PInt int
  | PBool bool
  | Scaled int scale
  | PDict "(string \<times> pyval) list"

type_synonym pydict = "(string \<times> pyval) list"

section \<open>The IMU protocol decoder (core/imu/imu\_protocol.py)\<close>

subsection \<open>Field readers\<close>

text \<open>
  \<open>_parse_int16_from_buffer\<close>: little-endian, two's complement; 0 when the two bytes do
  not lie inside the buffer.
\<close>

definition parse_int16_from_buffer :: "bytearray \<Rightarrow> int \<Rightarrow> py_error + int" where
  "parse_int16_from_buffer buf offset =
     (if offset + 1 \<ge> len buf then Inr 0
      else bind (getitem buf (offset + 1)) (\<lambda>hi.
           bind (getitem buf offset) (\<lambda>lo.
             let value = push_bit 8 hi OR lo
             in Inr (if value \<ge> 32768 then value - 65536 else value))))"

text \<open>
  \<open>np.int32(value)\<close> for \<open>0 \<le> value < 2 ^ 32\<close>: the value read as a 32-bit two's
  complement number (NumPy's wrap-around conversion).
\<close>

definition np_int32 :: "int \<Rightarrow> int" where
  "np_int32 v = sint (word_of_int v :: 32 word)"

text \<open>
  \<open>_parse_int24_from_buffer\<close>: little-endian, sign-extended from bit 23; 0 when the three
  bytes do not lie inside the buffer.
\<close>

definition parse_int24_from_buffer :: "bytearray \<Rightarrow> int \<Rightarrow> py_error + int" where
  "parse_int24_from_buffer buf offset =
     (if offset + 2 \<ge> len buf then Inr 0
      else bind (getitem buf (offset + 2)) (\<lambda>b2.
           bind (getitem buf (offset + 1)) (\<lambda>b1.
           bind (getitem buf offset) (\<lambda>b0.
             let value = push_bit 16 b2 OR push_bit 8 b1 OR b0;
                 value = (if value AND 0x800000 = 0x800000 then value OR 0xff000000 else value)
             in Inr (np_int32 value)))))"

subsection \<open>The bodies of the twelve field blocks\<close>

text \<open>
  Each function is the body of one \<open>if L + size <= len(buf)\<close> block of
  \<open>parse_imu_data\<close>: it reads the field at offset \<open>L\<close> and returns the entries the block
  stores in \<open>data\<close>, in the order of the assignments.
\<close>

definition three_int16 ::
  "bytearray \<Rightarrow> int \<Rightarrow> (int \<Rightarrow> int \<Rightarrow> int \<Rightarrow> py_error + 'a) \<Rightarrow> py_error + 'a" where
  "three_int16 buf L k =
     bind (parse_int16_from_buffer buf L) (\<lambda>a.
     bind (parse_int16_from_buffer buf (L + 2)) (\<lambda>b.
     bind (parse_int16_from_buffer buf (L + 4)) (\<lambda>c. k a b c)))"

definition xyz :: "scale \<Rightarrow> int \<Rightarrow> int \<Rightarrow> int \<Rightarrow> pyval" where
  "xyz s a b c = PDict [(''x'', Scaled a s), (''y'', Scaled b s), (''z'', Scaled c s)]"

definition block_linear_accel :: "bytearray \<Rightarrow> int \<Rightarrow> py_error + pydict" where
  "block_linear_accel buf L =
     three_int16 buf L (\<lambda>ax ay az. Inr [(''linear_accel'', xyz SCALE_ACCEL ax ay az)])"

definition block_accel_with_gravity :: "bytearray \<Rightarrow> int \<Rightarrow> py_error + pydict" where
  "block_accel_with_gravity buf L =
     three_int16 buf L (\<lambda>ax ay az. Inr [(''accel_with_gravity'', xyz SCALE_ACCEL ax ay az)])"

definition block_gyro :: "bytearray \<Rightarrow> int \<Rightarrow> py_error + pydict" where
  "block_gyro buf L =
     three_int16 buf L (\<lambda>gx gy gz. Inr [(''gyro'', xyz SCALE_ANGLE_SPEED gx gy gz)])"

definition block_mag :: "bytearray \<Rightarrow> int \<Rightarrow> py_error + pydict" where
  "block_mag buf L =
     three_int16 buf L (\<lambda>mx my mz. Inr [(''mag'', xyz SCALE_MAG mx my mz)])"

definition block_temperature :: "bytearray \<Rightarrow> int \<Rightarrow> py_error + pydict" where
  "block_temperature buf L =
     bind (parse_int16_from_buffer buf L) (\<lambda>temp.
     bind (parse_int24_from_buffer buf (L + 2)) (\<lambda>pressure_raw.
     bind (parse_int24_from_buffer buf (L + 2 + 3)) (\<lambda>height_raw.
       Inr [(''temperature'', Scaled temp SCALE_TEMPERATURE),
            (''pressure'', Scaled pressure_raw SCALE_AIR_PRESSURE),
            (''height'', Scaled height_raw SCALE_HEIGHT)])))"

definition block_quat :: "bytearray \<Rightarrow> int \<Rightarrow> py_error + pydict" where
  "block_quat buf L =
     bind (parse_int16_from_buffer buf L) (\<lambda>qw.
     bind (parse_int16_from_buffer buf (L + 2)) (\<lambda>qx.
     bind (parse_int16_from_buffer buf (L + 4)) (\<lambda>qy.
     bind (parse_int16_from_buffer buf (L + 6)) (\<lambda>qz.
       Inr [(''quat'', PDict [(''w'', Scaled qw SCALE_QUAT), (''x'', Scaled qx SCALE_QUAT),
                              (''y'', Scaled qy SCALE_QUAT), (''z'', Scaled qz SCALE_QUAT)])]))))"

definition block_angle :: "bytearray \<Rightarrow> int \<Rightarrow> py_error + pydict" where
  "block_angle buf L =
     three_int16 buf L (\<lambda>roll pitch yaw.
       Inr [(''angle'', PDict [(''roll'', Scaled roll SCALE_ANGLE),
                               (''pitch'', Scaled pitch SCALE_ANGLE),
                               (''yaw'', Scaled yaw SCALE_ANGLE)])])"

definition block_offset :: "bytearray \<Rightarrow> int \<Rightarrow> py_error + pydict" where
  "block_offset buf L =
     three_int16 buf L (\<lambda>ox oy oz. Inr [(''offset'', xyz DIV_1000 ox oy oz)])"

definition block_steps :: "bytearray \<Rightarrow> int \<Rightarrow> py_error + pydict" where
  "block_steps buf L =
     bind (getitem buf (L + 3)) (\<lambda>b3.
     bind (getitem buf (L + 2)) (\<lambda>b2.
     bind (getitem buf (L + 1)) (\<lambda>b1.
     bind (getitem buf L) (\<lambda>b0.
     bind (getitem buf (L + 4)) (\<lambda>motion_state.
       Inr [(''steps'', PInt (push_bit 24 b3 OR push_bit 16 b2 OR push_bit 8 b1 OR b0)),
            (''motion'', PDict [(''walking'', PBool (motion_state AND 0x01 \<noteq> 0)),
                                (''running'', PBool (motion_state AND 0x02 \<noteq> 0)),
                                (''biking'', PBool (motion_state AND 0x04 \<noteq> 0)),
                                (''driving'', PBool (motion_state AND 0x08 \<noteq> 0))])])))))"

definition block_high_precision :: "bytearray \<Rightarrow> int \<Rightarrow> py_error + pydict" where
  "block_high_precision buf L =
     three_int16 buf L (\<lambda>asx asy asz.
       Inr [(''high_precision_linear_accel'', xyz SCALE_ACCEL asx asy asz)])"

definition block_adc :: "bytearray \<Rightarrow> int \<Rightarrow> py_error + pydict" where
  "block_adc buf L =
     bind (getitem buf (L + 1)) (\<lambda>hi.
     bind (getitem buf L) (\<lambda>lo.
       Inr [(''adc'', PInt (push_bit 8 hi OR lo))]))"

definition block_gpio :: "bytearray \<Rightarrow> int \<Rightarrow> py_error + pydict" where
  "block_gpio buf L =
     bind (getitem buf L) (\<lambda>gpio_value.
       Inr [(''gpio'', PDict [(''mode'', PInt (drop_bit 4 gpio_value AND 0x0f)),
                              (''value'', PInt (gpio_value AND 0x0f))])])"

subsection \<open>parse\_imu\_data\<close>

text \<open>
  One field block of \<open>parse_imu_data\<close>, as the source writes each of the twelve:
  \<^verbatim>\<open>
  if (ctl & mask) != 0:
      if L + size <= len(buf):
          ... data[key] = ...
          L += size
  \<close>
  The state threaded through the blocks is the pair \<open>(data, L)\<close>.
\<close>

record field_block =
  mask :: int
  size :: int
  body :: "bytearray \<Rightarrow> int \<Rightarrow> py_error + pydict"

definition run_block ::
  "bytearray \<Rightarrow> int \<Rightarrow> field_block \<Rightarrow> pydict \<times> int \<Rightarrow> py_error + (pydict \<times> int)" where
  "run_block buf ctl b s =
     (case s of (data, L) \<Rightarrow>
        if ctl AND mask b \<noteq> 0 then
          if L + size b \<le> len buf then
            bind (body b buf L) (\<lambda>kvs. Inr (setitems data kvs, L + size b))
          else Inr (data, L)
        else Inr (data, L))"

fun run_blocks ::
  "bytearray \<Rightarrow> int \<Rightarrow> field_block list \<Rightarrow> pydict \<times> int \<Rightarrow> py_error + (pydict \<times> int)" where
  "run_blocks buf ctl [] s = Inr s"
| "run_blocks buf ctl (b # bs) s = bind (run_block buf ctl b s) (run_blocks buf ctl bs)"

text \<open>The twelve blocks in the order of the source, with the mask and size each one tests.\<close>

definition field_blocks :: "field_block list" where
  "field_blocks =
     [\<lparr>mask = 0x0001, size = 6, body = block_linear_accel\<rparr>,
      \<lparr>mask = 0x0002, size = 6, body = block_accel_with_gravity\<rparr>,
      \<lparr>mask = 0x0004, size = 6, body = block_gyro\<rparr>,
      \<lparr>mask = 0x0008, size = 6, body = block_mag\<rparr>,
      \<lparr>mask = 0x0010, size = 8, body = block_temperature\<rparr>,
      \<lparr>mask = 0x0020, size = 8, body = block_quat\<rparr>,
      \<lparr>mask = 0x0040, size = 6, body = block_angle\<rparr>,
      \<lparr>mask = 0x0080, size = 6, body = block_offset\<rparr>,
      \<lparr>mask = 0x0100, size = 5, body = block_steps\<rparr>,
      \<lparr>mask = 0x0200, size = 6, body = block_high_precision\<rparr>,
      \<lparr>mask = 0x0400, size = 2, body = block_adc\<rparr>,
      \<lparr>mask = 0x0800, size = 1, body = block_gpio\<rparr>]"

text \<open>
  The header: \<open>ctl\<close> from bytes 1 and 2, \<open>timestamp\<close> from bytes 3 to 6, both
  little-endian. This is the part of the function inside \<open>try\<close>.
\<close>

definition parse_body :: "bytearray \<Rightarrow> py_error + pydict" where
  "parse_body buf =
     bind (getitem buf 2) (\<lambda>b2.
     bind (getitem buf 1) (\<lambda>b1.
     bind (getitem buf 6) (\<lambda>b6.
     bind (getitem buf 5) (\<lambda>b5.
     bind (getitem buf 4) (\<lambda>b4.
     bind (getitem buf 3) (\<lambda>b3.
       let ctl = push_bit 8 b2 OR b1;
           timestamp = push_bit 24 b6 OR push_bit 16 b5 OR push_bit 8 b4 OR b3;
           data = [(''timestamp'', PInt timestamp), (''control'', PInt ctl)]
       in bind (run_blocks buf ctl field_blocks (data, 7)) (\<lambda>s. Inr (fst s))))))))"

text \<open>
  \<open>parse_imu_data\<close>: the length and tag test is outside \<open>try\<close>, so an exception there
  would reach the caller; every exception of the body is caught and turned into \<open>None\<close>.
\<close>

definition parse_imu_data :: "bytearray \<Rightarrow> py_error + pydict option" where
  "parse_imu_data buf =
     (if len buf < 7 then Inr None
      else bind (getitem buf 0) (\<lambda>tag.
        if tag \<noteq> 0x11 then Inr None
        else (case parse_body buf of
                Inl e \<Rightarrow> Inr None
              | Inr data \<Rightarrow> Inr (Some data))))"

subsection \<open>What the decoder's result contains\<close>





text \<open>The header fields as little-endian numbers: bytes 1 to 2 and bytes 3 to 6.\<close>

definition control_of :: "bytearray \<Rightarrow> int" where
  "control_of buf = uint (buf ! 1) + 256 * uint (buf ! 2)"

definition timestamp_of :: "bytearray \<Rightarrow> int" where
  "timestamp_of buf =
     uint (buf ! 3) + 256 * uint (buf ! 4) + 65536 * uint (buf ! 5) + 16777216 * uint (buf ! 6)"


section \<open>The writer threads (core/imu/imu\_writer\_thread.py, core/camera/video\_writer\_thread.py)\<close>

text \<open>
  \<open>IMUWriterThread\<close> and \<open>VideoWriterThread\<close> have the same structure: a bounded
  queue of units and four dictionaries keyed by the device (\<open>device_address\<close> or
  \<open>camera_id\<close>, the type \<open>'d\<close>). The model covers both; \<open>'p\<close> is what one unit
  contributes to the output file (the CSV row of a sample, the frame of a camera together
  with its line of the timestamp file, which \<open>VideoWriterThread\<close> keeps in the two further
  dictionaries \<open>csv_files\<close> and \<open>csv_writers\<close>, set and deleted together with
  \<open>writers\<close>).

  Each method is one step on the state: the methods run under \<open>writers_lock\<close>, except
  that \<open>add_data\<close> releases the lock between its test of the job's state and
  \<open>put_nowait\<close>. The outcomes of file operations are parameters of the steps:
  \<open>open_ok\<close> (creating the directory, opening the file and writing the header succeed),
  \<open>write_ok\<close> (writing and flushing the row succeed) and \<open>close_ok d\<close> (closing the
  file of \<open>d\<close> and reading its size succeed). Wall-clock durations and rates are not
  modelled.
\<close>

datatype WriterState = IDLE | WRITING | STOPPING | ERROR

record ('d, 'p) unit_data =
  device :: 'd
  payload :: 'p
  timestamp :: int

record writer_stat =
  start_time :: int
  data_count :: int
  dropped_data :: int
  last_data_time :: "int option"

record ('d, 'p) writer_thread =
  maxsize :: int
  data_queue :: "('d, 'p) unit_data list"
  writers :: "('d \<times> 'p list) list"
  writer_configs :: "('d \<times> string) list"
  writer_states :: "('d \<times> WriterState) list"
  writer_stats :: "('d \<times> writer_stat) list"
  should_stop :: bool
  closed_files :: "('d \<times> string \<times> 'p list) list"
  writer_stopped :: "('d \<times> int \<times> int) list"
  writer_error :: "'d list"

text \<open>
  \<open>writers\<close> maps a device to its open output file, modelled by the rows written so far.
  \<open>closed_files\<close> collects the files closed by finalization (device, path, rows), and
  \<open>writer_stopped\<close> the final statistics emitted with the signal of that name (device,
  \<open>data_count\<close>, \<open>dropped_data\<close>); \<open>writer_error\<close> lists the devices of the
  emitted error signals.
\<close>

definition init_writer_thread :: "int \<Rightarrow> ('d, 'p) writer_thread" where
  "init_writer_thread queue_size =
     \<lparr>maxsize = queue_size, data_queue = [], writers = [], writer_configs = [],
      writer_states = [], writer_stats = [], should_stop = False, closed_files = [],
      writer_stopped = [], writer_error = []\<rparr>"

text \<open>\<open>queue.Queue(maxsize)\<close>: the queue is bounded only when \<open>maxsize > 0\<close>.\<close>

definition full :: "('d, 'p) writer_thread \<Rightarrow> bool" where
  "full w = (0 < maxsize w \<and> maxsize w \<le> len (data_queue w))"

definition emit_error :: "'d \<Rightarrow> ('d, 'p) writer_thread \<Rightarrow> ('d, 'p) writer_thread" where
  "emit_error d w = w\<lparr>writer_error := writer_error w @ [d]\<rparr>"

definition start_writer ::
  "bool \<Rightarrow> 'd \<Rightarrow> string \<Rightarrow> int \<Rightarrow> ('d, 'p) writer_thread \<Rightarrow> bool \<times> ('d, 'p) writer_thread" where
  "start_writer open_ok d output_path now w =
     (if contains (writers w) d then (False, w)
      else if \<not> open_ok then (False, emit_error d w)
      else (True,
            w\<lparr>writers := setitem (writers w) d [],
              writer_configs := setitem (writer_configs w) d output_path,
              writer_states := setitem (writer_states w) d WRITING,
              writer_stats := setitem (writer_stats w) d
                \<lparr>start_time = now, data_count = 0, dropped_data = 0, last_data_time = None\<rparr>\<rparr>))"

definition stop_writer :: "'d \<Rightarrow> ('d, 'p) writer_thread \<Rightarrow> bool \<times> ('d, 'p) writer_thread" where
  "stop_writer d w =
     (if \<not> contains (writers w) d then (False, w)
      else (True, w\<lparr>writer_states := setitem (writer_states w) d STOPPING\<rparr>))"

text \<open>
  \<open>add_data\<close> / \<open>add_frame\<close>. \<open>self.writer_states[d]\<close> raises \<open>KeyError\<close> for a
  missing key, and only \<open>queue.Full\<close> is caught.
\<close>

definition add_data ::
  "('d, 'p) unit_data \<Rightarrow> ('d, 'p) writer_thread \<Rightarrow> py_error + (bool \<times> ('d, 'p) writer_thread)" where
  "add_data u w =
     (if \<not> contains (writers w) (device u) then Inr (False, w)
      else case map_of (writer_states w) (device u) of
        None \<Rightarrow> Inl KeyError
      | Some s \<Rightarrow>
          if s \<noteq> WRITING then Inr (False, w)
          else if \<not> full w then Inr (True, w\<lparr>data_queue := data_queue w @ [u]\<rparr>)
          else (case map_of (writer_stats w) (device u) of
                  None \<Rightarrow> Inr (False, w)
                | Some st \<Rightarrow>
                    Inr (False,
                         w\<lparr>writer_stats := setitem (writer_stats w) (device u)
                             (st\<lparr>dropped_data := dropped_data st + 1\<rparr>)\<rparr>)))"

text \<open>
  \<open>_process_data\<close> / \<open>_process_frame\<close>: a unit whose job is missing or \<open>STOPPING\<close> is
  skipped; a failing write marks the job \<open>ERROR\<close>.
\<close>

definition process_data ::
  "bool \<Rightarrow> ('d, 'p) unit_data \<Rightarrow> ('d, 'p) writer_thread \<Rightarrow> py_error + ('d, 'p) writer_thread" where
  "process_data write_ok u w =
     (case map_of (writers w) (device u) of
        None \<Rightarrow> Inr w
      | Some rows \<Rightarrow>
          (case map_of (writer_states w) (device u) of
             None \<Rightarrow> Inl KeyError
           | Some state \<Rightarrow>
               if state = STOPPING then Inr w
               else if \<not> write_ok then
                 Inr (emit_error (device u)
                        (w\<lparr>writer_states := setitem (writer_states w) (device u) ERROR\<rparr>))
               else (case map_of (writer_stats w) (device u) of
                       None \<Rightarrow>
                         Inr (emit_error (device u)
                                (w\<lparr>writers := setitem (writers w) (device u) (rows @ [payload u]),
                                   writer_states := setitem (writer_states w) (device u) ERROR\<rparr>))
                     | Some st \<Rightarrow>
                         Inr (w\<lparr>writers := setitem (writers w) (device u) (rows @ [payload u]),
                                writer_stats := setitem (writer_stats w) (device u)
                                  (st\<lparr>data_count := data_count st + 1,
                                      last_data_time := Some (timestamp u)\<rparr>)\<rparr>))))"

text \<open>
  \<open>_finalize_writer\<close>: everything is inside \<open>try\<close>; an exception leaves the entries
  not yet deleted in place and emits the error signal.
\<close>

definition finalize_writer ::
  "('d \<Rightarrow> bool) \<Rightarrow> 'd \<Rightarrow> ('d, 'p) writer_thread \<Rightarrow> ('d, 'p) writer_thread" where
  "finalize_writer close_ok d w =
     (case map_of (writers w) d of
        None \<Rightarrow> emit_error d w
      | Some rows \<Rightarrow>
     (case map_of (writer_configs w) d of
        None \<Rightarrow> emit_error d w
      | Some output_path \<Rightarrow>
     (case map_of (writer_stats w) d of
        None \<Rightarrow> emit_error d w
      | Some st \<Rightarrow>
          if \<not> close_ok d then emit_error d w
          else
            let w1 = w\<lparr>closed_files := closed_files w @ [(d, output_path, rows)],
                       writers := delitem (writers w) d,
                       writer_configs := delitem (writer_configs w) d\<rparr>
            in if \<not> contains (writer_states w) d then emit_error d w1
               else w1\<lparr>writer_states := delitem (writer_states w) d,
                       writer_stats := delitem (writer_stats w) d,
                       writer_stopped :=
                         writer_stopped w @ [(d, data_count st, dropped_data st)]\<rparr>)))"

fun finalize_all ::
  "('d \<Rightarrow> bool) \<Rightarrow> 'd list \<Rightarrow> ('d, 'p) writer_thread \<Rightarrow> ('d, 'p) writer_thread" where
  "finalize_all close_ok [] w = w"
| "finalize_all close_ok (d # ds) w = finalize_all close_ok ds (finalize_writer close_ok d w)"

definition check_stopping_writers ::
  "('d \<Rightarrow> bool) \<Rightarrow> ('d, 'p) writer_thread \<Rightarrow> ('d, 'p) writer_thread" where
  "check_stopping_writers close_ok w =
     finalize_all close_ok (map fst (filter (\<lambda>e. snd e = STOPPING) (writer_states w))) w"

definition cleanup_all_writers ::
  "('d \<Rightarrow> bool) \<Rightarrow> ('d, 'p) writer_thread \<Rightarrow> ('d, 'p) writer_thread" where
  "cleanup_all_writers close_ok w = finalize_all close_ok (keys (writers w)) w"

fun mark_stopping :: "'d list \<Rightarrow> ('d, 'p) writer_thread \<Rightarrow> ('d, 'p) writer_thread" where
  "mark_stopping [] w = w"
| "mark_stopping (d # ds) w =
     mark_stopping ds (w\<lparr>writer_states := setitem (writer_states w) d STOPPING\<rparr>)"

definition stop_thread :: "('d, 'p) writer_thread \<Rightarrow> ('d, 'p) writer_thread" where
  "stop_thread w = mark_stopping (keys (writers w)) (w\<lparr>should_stop := True\<rparr>)"

text \<open>
  One iteration of the loop of \<open>run\<close>: \<open>get(timeout=0.1)\<close> takes the head of the queue
  and processes it, or times out on an empty queue and checks for stopping writers. An
  exception of \<open>_process_data\<close> is caught by the loop, which continues.
\<close>

definition consumer_step ::
  "bool \<Rightarrow> ('d \<Rightarrow> bool) \<Rightarrow> ('d, 'p) writer_thread \<Rightarrow> ('d, 'p) writer_thread" where
  "consumer_step write_ok close_ok w =
     (case data_queue w of
        [] \<Rightarrow> check_stopping_writers close_ok w
      | u # q \<Rightarrow>
          (case process_data write_ok u (w\<lparr>data_queue := q\<rparr>) of
             Inl e \<Rightarrow> w\<lparr>data_queue := q\<rparr>
           | Inr w' \<Rightarrow> w'))"

text \<open>
  The calls a writer thread receives, and a run of them. \<open>Consume\<close> is one iteration of
  the consumer loop; \<open>Cleanup\<close> is the \<open>finally\<close> block of \<open>run\<close>. A call that raises
  leaves the state as it was.
\<close>

datatype ('d, 'p) writer_call =
    StartWriter bool 'd string int
  | StopWriter 'd
  | AddData "('d, 'p) unit_data"
  | Consume bool "'d \<Rightarrow> bool"
  | StopThread
  | Cleanup "'d \<Rightarrow> bool"

fun apply_call :: "('d, 'p) writer_call \<Rightarrow> ('d, 'p) writer_thread \<Rightarrow> ('d, 'p) writer_thread" where
  "apply_call (StartWriter open_ok d output_path now) w = snd (start_writer open_ok d output_path now w)"
| "apply_call (StopWriter d) w = snd (stop_writer d w)"
| "apply_call (AddData u) w = (case add_data u w of Inl e \<Rightarrow> w | Inr r \<Rightarrow> snd r)"
| "apply_call (Consume write_ok close_ok) w = consumer_step write_ok close_ok w"
| "apply_call StopThread w = stop_thread w"
| "apply_call (Cleanup close_ok) w = cleanup_all_writers close_ok w"

fun run_calls :: "('d, 'p) writer_call list \<Rightarrow> ('d, 'p) writer_thread \<Rightarrow> ('d, 'p) writer_thread" where
  "run_calls [] w = w"
| "run_calls (c # cs) w = run_calls cs (apply_call c w)"

text \<open>
  The bookkeeping of the jobs is consistent when the four dictionaries hold the same
  devices, each once. \<open>job_count\<close> is the number of jobs a device has.
\<close>

definition job_count :: "('d, 'p) writer_thread \<Rightarrow> 'd \<Rightarrow> nat" where
  "job_count w d = length (filter (\<lambda>e. fst e = d) (writers w))"

definition writer_inv :: "('d, 'p) writer_thread \<Rightarrow> bool" where
  "writer_inv w =
     (distinct (keys (writers w)) \<and> distinct (keys (writer_configs w)) \<and>
      distinct (keys (writer_states w)) \<and> distinct (keys (writer_stats w)) \<and>
      set (keys (writer_configs w)) = set (keys (writers w)) \<and>
      set (keys (writer_states w)) = set (keys (writers w)) \<and>
      set (keys (writer_stats w)) = set (keys (writers w)))"

text \<open>The dropped-count of a device (0 when it has no job).\<close>

definition dropped_count :: "('d, 'p) writer_thread \<Rightarrow> 'd \<Rightarrow> int" where
  "dropped_count w d = (case map_of (writer_stats w) d of None \<Rightarrow> 0 | Some st \<Rightarrow> dropped_data st)"


text \<open>
  What happens to a job after \<open>stop_writer\<close>. \<open>files_of d\<close> selects the closed files of
  a device. A job is \<open>job_stopping\<close> while it is marked \<open>STOPPING\<close> and its open file
  still holds the rows \<open>rows\<close>; it is \<open>job_finalized\<close> once the job is gone and a file
  with exactly these rows has been closed after the files \<open>old\<close> closed earlier.
  \<open>restarts d c\<close> holds for the calls \<open>start_writer\<close> for \<open>d\<close>.
\<close>

definition files_of :: "'d \<Rightarrow> ('d \<times> string \<times> 'p list) list \<Rightarrow> (string \<times> 'p list) list" where
  "files_of d cf = map snd (filter (\<lambda>e. fst e = d) cf)"

definition job_stopping ::
  "'d \<Rightarrow> string \<Rightarrow> 'p list \<Rightarrow> (string \<times> 'p list) list \<Rightarrow> ('d, 'p) writer_thread \<Rightarrow> bool" where
  "job_stopping d path rows old w =
     (map_of (writers w) d = Some rows \<and> map_of (writer_configs w) d = Some path \<and>
      map_of (writer_states w) d = Some STOPPING \<and> files_of d (closed_files w) = old)"

definition job_finalized ::
  "'d \<Rightarrow> string \<Rightarrow> 'p list \<Rightarrow> (string \<times> 'p list) list \<Rightarrow> ('d, 'p) writer_thread \<Rightarrow> bool" where
  "job_finalized d path rows old w =
     (\<not> contains (writers w) d \<and> files_of d (closed_files w) = old @ [(path, rows)])"







section \<open>The IMU device manager (core/imu/imu\_manager.py)\<close>

text \<open>
  \<open>IMUConnectionState\<close>; its \<open>ERROR\<close> is written \<open>IMU_ERROR\<close>, since \<open>ERROR\<close> names a
  writer state.
\<close>

datatype IMUConnectionState = DISCONNECTED | CONNECTING | CONNECTED | IMU_ERROR

text \<open>
  \<open>IMUDevice\<close>. \<open>client\<close> is the optional BLE client, modelled by whether it is
  connected.
\<close>

record IMUDevice =
  address :: string
  name :: string
  rssi :: "int option"
  state :: IMUConnectionState
  client :: "bool option"
  last_data_time :: "int option"
  error_message :: "string option"
  manual_disconnect :: bool
  custom_name :: "string option"

text \<open>
  The devices are objects: the dictionary \<open>devices\<close>, a running reconnection task and the
  disconnect callback of a client all refer to the same \<open>IMUDevice\<close>, and a scan replaces
  the objects of the dictionary by new ones. So the manager has a store \<open>heap\<close> of device
  objects, and \<open>devices\<close> maps an address to a reference into it. \<open>reconnect_tasks\<close> holds
  the addresses that have a reconnection task. The callbacks the manager invokes are
  recorded in \<open>callbacks\<close>.
\<close>

type_synonym ref = nat

datatype imu_callback =
    DeviceDiscovered string
  | DeviceConnected string
  | DeviceDisconnected string
  | OnError string string

record IMUManager =
  max_devices :: int
  reconnect_attempts :: int
  reconnect_delay :: rat
  device_custom_names :: "(string \<times> string) list"
  devices :: "(string \<times> ref) list"
  heap :: "ref \<Rightarrow> IMUDevice"
  next_ref :: ref
  is_scanning :: bool
  reconnect_tasks :: "string list"
  callbacks :: "imu_callback list"

definition notify :: "imu_callback \<Rightarrow> IMUManager \<Rightarrow> IMUManager" where
  "notify c m = m\<lparr>callbacks := callbacks m @ [c]\<rparr>"

definition modify :: "ref \<Rightarrow> (IMUDevice \<Rightarrow> IMUDevice) \<Rightarrow> IMUManager \<Rightarrow> IMUManager" where
  "modify r f m = m\<lparr>heap := (heap m)(r := f (heap m r))\<rparr>"

subsection \<open>Scanning\<close>

text \<open>
  \<open>str.lower\<close> on ASCII letters, and the substring test \<open>keyword in s\<close>.
\<close>

definition char_lower :: "char \<Rightarrow> char" where
  "char_lower c =
     (case map_of (zip ''ABCDEFGHIJKLMNOPQRSTUVWXYZ'' ''abcdefghijklmnopqrstuvwxyz'') c of
        None \<Rightarrow> c
      | Some l \<Rightarrow> l)"

definition lower :: "string \<Rightarrow> string" where
  "lower s = map char_lower s"

fun starts_with :: "string \<Rightarrow> string \<Rightarrow> bool" where
  "starts_with s [] = True"
| "starts_with [] (k # ks) = False"
| "starts_with (c # s) (k # ks) = (c = k \<and> starts_with s ks)"

fun str_in :: "string \<Rightarrow> string \<Rightarrow> bool" where
  "str_in k [] = (k = [])"
| "str_in k (c # s) = (starts_with (c # s) k \<or> str_in k s)"

text \<open>
  What \<open>BleakScanner.discover\<close> reports for one device: address, advertised name (may be
  missing) and signal strength (may be missing).
\<close>

record ble_device =
  ble_address :: string
  ble_name :: "string option"
  ble_rssi :: "int option"





subsection \<open>Connecting\<close>

text \<open>
  How the connection task ends: the device is not found, \<open>client.connect()\<close> raises,
  configuring the connected device or starting the notifications raises, or all succeed.
\<close>

datatype ble_outcome = NotFound | ConnectFailed | ConfigureFailed | ConnectOk

definition connected_count :: "IMUManager \<Rightarrow> int" where
  "connected_count m =
     len (filter (\<lambda>e. state (heap m (snd e)) = CONNECTED) (devices m))"

text \<open>
  \<open>_connect_device_task\<close> on the device object \<open>r\<close>: a failure sets \<open>ERROR\<close> and raises;
  a failure after \<open>client.connect()\<close> leaves the client set.
\<close>

definition connect_device_task ::
  "ble_outcome \<Rightarrow> int \<Rightarrow> ref \<Rightarrow> IMUManager \<Rightarrow> bool \<times> IMUManager" where
  "connect_device_task outcome now r m =
     (case outcome of
        NotFound \<Rightarrow>
          (False, modify r (\<lambda>d. d\<lparr>state := IMU_ERROR, error_message := Some ''not found''\<rparr>) m)
      | ConnectFailed \<Rightarrow>
          (False, modify r (\<lambda>d. d\<lparr>state := IMU_ERROR, error_message := Some ''connect''\<rparr>) m)
      | ConfigureFailed \<Rightarrow>
          (False,
           modify r (\<lambda>d. d\<lparr>client := Some True, last_data_time := Some now,
                             state := IMU_ERROR, error_message := Some ''configure''\<rparr>) m)
      | ConnectOk \<Rightarrow>
          (True,
           notify (DeviceConnected (address (heap m r)))
             (modify r (\<lambda>d. d\<lparr>client := Some True, state := CONNECTED,
                               last_data_time := Some now\<rparr>) m)))"

text \<open>
  \<open>connect_device\<close>: the three tests, then the flag \<open>manual_disconnect\<close> is cleared, the
  state becomes \<open>CONNECTING\<close> and the connection task runs; its exception is turned into
  \<open>ERROR\<close>, the error callback and \<open>False\<close>.
\<close>

definition connect_device ::
  "string \<Rightarrow> ble_outcome \<Rightarrow> int \<Rightarrow> IMUManager \<Rightarrow> bool \<times> IMUManager" where
  "connect_device addr outcome now m =
     (case map_of (devices m) addr of
        None \<Rightarrow> (False, m)
      | Some r \<Rightarrow>
          if state (heap m r) = CONNECTED then (True, m)
          else if state (heap m r) = CONNECTING then (False, m)
          else if connected_count m \<ge> max_devices m then (False, m)
          else
            (let m1 = modify r (\<lambda>d. d\<lparr>manual_disconnect := False, state := CONNECTING,
                                        error_message := None\<rparr>) m
             in case connect_device_task outcome now r m1 of
                  (True, m2) \<Rightarrow> (True, m2)
                | (False, m2) \<Rightarrow> (False, notify (OnError addr ''connect failed'') m2)))"

subsection \<open>Disconnecting and reconnecting\<close>











text \<open>
  A manager with one device, whose reconnection settings are two attempts with a delay of
  one second, and an environment in which every connection attempt fails and nothing else
  happens.
\<close>

definition one_device :: IMUDevice where
  "one_device =
     \<lparr>address = ''AA:01'', name = ''im948-1'', rssi = Some (- 60), state = CONNECTED,
      client = Some True, last_data_time = None, error_message = None,
      manual_disconnect = False, custom_name = None\<rparr>"

definition one_device_manager :: IMUManager where
  "one_device_manager =
     \<lparr>max_devices = 1, reconnect_attempts = 2, reconnect_delay = 1, device_custom_names = [],
      devices = [(''AA:01'', 0)], heap = (\<lambda>r. one_device), next_ref = 1, is_scanning = False,
      reconnect_tasks = [], callbacks = []\<rparr>"



text \<open>
  A manager at its limit of one connection that knows a second, disconnected device.
\<close>

definition two_device_manager :: IMUManager where
  "two_device_manager =
     one_device_manager
       \<lparr>devices := [(''AA:01'', 0), (''AA:02'', 1)],
        heap := (\<lambda>r. if r = 0 then one_device
                      else one_device\<lparr>address := ''AA:02'', state := DISCONNECTED,
                                      client := None\<rparr>),
        next_ref := 2\<rparr>"

text \<open>
  What a sweep leaves in the device list. \<open>name_matches kws dev\<close>: one of the keywords
  occurs, case-insensitively, in the advertised name of \<open>dev\<close>. \<open>scanned ds kws n0 m\<close>:
  every entry of the device list refers to an object created after reference \<open>n0\<close>, which
  carries the address of the entry and the initial connection state, and whose address was
  reported in \<open>ds\<close> by a device with a matching name.
\<close>

definition name_matches :: "string list \<Rightarrow> ble_device \<Rightarrow> bool" where
  "name_matches kws dev =
     list_ex (\<lambda>keyword. str_in (lower keyword)
                (lower (case ble_name dev of None \<Rightarrow> [] | Some n \<Rightarrow> n))) kws"

definition scanned :: "ble_device list \<Rightarrow> string list \<Rightarrow> ref \<Rightarrow> IMUManager \<Rightarrow> bool" where
  "scanned ds kws n0 m =
     (n0 \<le> next_ref m \<and>
      list_all (\<lambda>e. n0 \<le> snd e \<and> snd e < next_ref m \<and>
                     address (heap m (snd e)) = fst e \<and>
                     state (heap m (snd e)) = DISCONNECTED \<and>
                     client (heap m (snd e)) = None \<and>
                     \<not> manual_disconnect (heap m (snd e)) \<and>
                     list_ex (\<lambda>dev. ble_address dev = fst e \<and> name_matches kws dev) ds)
        (devices m))"


section \<open>The camera manager (core/camera/camera\_manager.py)\<close>

text \<open>
  \<open>CameraState\<close>, with the prefix \<open>CAM_\<close> since the names are those of the IMU states.
  \<open>CameraDevice\<close>: the field \<open>id\<close> is written \<open>cam_id\<close>; \<open>capture\<close> is the optional
  \<open>cv2.VideoCapture\<close>, modelled by its presence; the frame rate is a rational number.
\<close>

datatype CameraState =
  CAM_DISCONNECTED | CAM_CONNECTING | CAM_CONNECTED | CAM_RECORDING | CAM_ERROR

record CameraDevice =
  cam_id :: int
  cam_name :: string
  width :: int
  height :: int
  fps :: rat
  cam_state :: CameraState
  capture :: bool
  cam_error_message :: "string option"
  frame_timestamps :: "int list"

record CameraManager =
  max_cameras :: int
  device_names :: "(int \<times> string) list"
  default_fps :: rat
  default_width :: int
  default_height :: int
  cameras :: "(int \<times> CameraDevice) list"
  cam_callbacks :: "(int \<times> string) list"

text \<open>
  \<open>_get_camera_name\<close>; the default name \<open>f"... {camera_id}"\<close> is kept as the text
  \<open>''camera''\<close>, the number is not formatted.
\<close>

definition get_camera_name :: "CameraManager \<Rightarrow> int \<Rightarrow> string" where
  "get_camera_name m camera_id =
     (case map_of (device_names m) camera_id of None \<Rightarrow> ''camera'' | Some n \<Rightarrow> n)"

text \<open>
  How opening the capture ends: it cannot be opened, the test read fails, or it is opened and
  reports the negotiated width, height and frame rate.
\<close>

datatype capture_outcome = OpenFailed | ReadFailed | Opened int int rat

definition cam_connected_count :: "(int \<times> CameraDevice) list \<Rightarrow> int" where
  "cam_connected_count cams =
     len (filter (\<lambda>e. cam_state (snd e) = CAM_CONNECTED \<or> cam_state (snd e) = CAM_RECORDING) cams)"

text \<open>
  \<open>connect_camera\<close>: an unknown camera first gets a record with the default parameters;
  then the three tests; then the parameters are set, the state becomes \<open>CONNECTING\<close> and
  the capture is opened.
\<close>

definition connect_camera ::
  "int \<Rightarrow> int option \<Rightarrow> int option \<Rightarrow> rat option \<Rightarrow> capture_outcome \<Rightarrow> int \<Rightarrow> CameraManager
     \<Rightarrow> bool \<times> CameraManager" where
  "connect_camera camera_id w h f opened t m =
     (let m0 = (if \<not> contains (cameras m) camera_id
                then m\<lparr>cameras := setitem (cameras m) camera_id
                        \<lparr>cam_id = camera_id, cam_name = get_camera_name m camera_id,
                         width = default_width m, height = default_height m,
                         fps = default_fps m, cam_state = CAM_DISCONNECTED, capture = False,
                         cam_error_message = None, frame_timestamps = []\<rparr>\<rparr>
                else m)
      in case map_of (cameras m0) camera_id of
           None \<Rightarrow> (False, m0)
         | Some camera \<Rightarrow>
             if cam_state camera = CAM_CONNECTED then (True, m0)
             else if cam_state camera = CAM_CONNECTING then (False, m0)
             else if cam_connected_count (cameras m0) \<ge> max_cameras m0 then (False, m0)
             else
               (let camera1 = camera\<lparr>width := (case w of None \<Rightarrow> default_width m0 | Some x \<Rightarrow> x),
                                     height := (case h of None \<Rightarrow> default_height m0 | Some x \<Rightarrow> x),
                                     fps := (case f of None \<Rightarrow> default_fps m0 | Some x \<Rightarrow> x),
                                     cam_state := CAM_CONNECTING, cam_error_message := None\<rparr>
                in case opened of
                     Opened aw ah af \<Rightarrow>
                       (True,
                        m0\<lparr>cameras := setitem (cameras m0) camera_id
                             (camera1\<lparr>capture := True, width := aw, height := ah, fps := af,
                                      cam_state := CAM_CONNECTED, frame_timestamps := [t]\<rparr>),
                           cam_callbacks := cam_callbacks m0 @ [(camera_id, ''connected'')]\<rparr>)
                   | failed \<Rightarrow>
                       (False,
                        m0\<lparr>cameras := setitem (cameras m0) camera_id
                             (camera1\<lparr>cam_state := CAM_ERROR,
                                      cam_error_message := Some ''connect failed''\<rparr>),
                           cam_callbacks := cam_callbacks m0 @ [(camera_id, ''error'')]\<rparr>)))"

text \<open>A camera manager at its limit of one connection, with camera 0 connected.\<close>

definition one_camera_manager :: CameraManager where
  "one_camera_manager =
     \<lparr>max_cameras = 1, device_names = [], default_fps = 30, default_width = 1920,
      default_height = 1080,
      cameras = [(0, \<lparr>cam_id = 0, cam_name = ''camera'', width = 640, height = 480, fps = 30,
                      cam_state = CAM_CONNECTED, capture = True, cam_error_message = None,
                      frame_timestamps = [5]\<rparr>)],
      cam_callbacks = []\<rparr>"

section \<open>The process supervisor (core/multiprocessing/process\_manager.py)\<close>

text \<open>
  \<open>ProcessStatus\<close>. The constructors \<open>STOPPING\<close> and \<open>ERROR\<close> already name writer
  states, so the process states of these names carry the prefix \<open>PROC_\<close>.
\<close>

datatype ProcessStatus = STOPPED | STARTING | RUNNING | PROC_STOPPING | PROC_ERROR

text \<open>
  A \<open>subprocess.Popen\<close> handle, as far as the supervisor uses it: its standard input,
  which is a pipe or absent. A pipe records the lines written to it; writing to or flushing a
  broken pipe raises.
\<close>

record pipe =
  broken :: bool
  lines :: "string list"

record popen =
  stdin :: "pipe option"

record ProcessInfo =
  process_id :: string
  process_type :: string
  instance_id :: int
  status :: ProcessStatus
  process :: "popen option"
  start_time :: "int option"
  error_message :: "string option"

record ProcessManager =
  processes :: "(string \<times> ProcessInfo) list"
  log :: "string list"

definition log_message :: "string \<Rightarrow> ProcessManager \<Rightarrow> ProcessManager" where
  "log_message m pm = pm\<lparr>log := log pm @ [m]\<rparr>"


text \<open>
  \<open>send_command\<close>. \<open>message\<close> is the outcome of \<open>json.dumps(message) + "\n"\<close>, the line
  or the exception raised for data that cannot be serialised. The body is inside \<open>try\<close>:
  every exception gives \<open>False\<close>. With no standard input nothing is written and the result
  is still \<open>True\<close>.
\<close>

definition send_command ::
  "string \<Rightarrow> string option \<Rightarrow> ProcessManager \<Rightarrow> bool \<times> ProcessManager" where
  "send_command pid message pm =
     (case map_of (processes pm) pid of
        None \<Rightarrow> (False, log_message ''not found'' pm)
      | Some info \<Rightarrow>
          (case process info of
             None \<Rightarrow> (False, log_message ''not running'' pm)
           | Some p \<Rightarrow>
               if status info \<noteq> RUNNING then (False, log_message ''not running'' pm)
               else (case message of
                       None \<Rightarrow> (False, log_message ''send failed'' pm)
                     | Some line \<Rightarrow>
                         (case stdin p of
                            None \<Rightarrow> (True, pm)
                          | Some s \<Rightarrow>
                              if broken s then (False, log_message ''send failed'' pm)
                              else (True,
                                    pm\<lparr>processes := setitem (processes pm) pid
                                         (info\<lparr>process :=
                                            Some (p\<lparr>stdin := Some (s\<lparr>lines := lines s @ [line]\<rparr>)\<rparr>)\<rparr>)\<rparr>)))))"





definition pipes_attached :: "ProcessManager \<Rightarrow> bool" where
  "pipes_attached pm =
     list_all (\<lambda>e. case process (snd e) of None \<Rightarrow> True | Some p \<Rightarrow> stdin p \<noteq> None)
       (processes pm)"



section \<open>Basic facts about the exception monad and dictionaries\<close>

lemma bind_Inr [simp]: "bind (Inr v) f = f v"
  by (simp add: bind_def)

lemma bind_Inl [simp]: "bind (Inl e) f = Inl e"
  by (simp add: bind_def)

lemma map_of_setitem [simp]:
  "map_of (setitem d k v) k' = (if k' = k then Some v else map_of d k')"
  by (simp add: setitem_def update_conv')

lemma map_of_delitem [simp]:
  "map_of (delitem d k) k' = (if k' = k then None else map_of d k')"
  by (simp add: delitem_def delete_conv')

lemma set_keys_setitem [simp]: "set (keys (setitem d k v)) = insert k (set (keys d))"
  by (simp add: setitem_def keys_def dom_update)

lemma distinct_keys_setitem [simp]: "distinct (keys (setitem d k v)) = distinct (keys d)"
  by (simp add: setitem_def keys_def update_keys)

lemma set_keys_delitem [simp]: "set (keys (delitem d k)) = set (keys d) - {k}"
  by (auto simp: delitem_def keys_def delete_keys)

lemma distinct_keys_delitem [simp]: "distinct (keys d) \<Longrightarrow> distinct (keys (delitem d k))"
  by (simp add: delitem_def keys_def distinct_delete)

lemma map_of_Some_keys: "map_of d k = Some v \<Longrightarrow> k \<in> set (keys d)"
  by (auto simp: keys_def dest: map_of_SomeD intro: rev_image_eqI)

lemma map_of_None_keys: "map_of d k = None \<longleftrightarrow> k \<notin> set (keys d)"
  by (simp add: keys_def map_of_eq_None_iff)

lemma contains_keys: "contains d k \<longleftrightarrow> k \<in> set (keys d)"
  by (simp add: contains_def keys_def map_of_eq_None_iff)

lemma contains_setitem [simp]: "contains (setitem d k v) k' \<longleftrightarrow> k' = k \<or> contains d k'"
  by (simp add: contains_def)

lemma contains_delitem [simp]: "contains (delitem d k) k' \<longleftrightarrow> k' \<noteq> k \<and> contains d k'"
  by (simp add: contains_def)

lemma emit_error_fields [simp]:
  "writers (emit_error d w) = writers w"
  "writer_configs (emit_error d w) = writer_configs w"
  "writer_states (emit_error d w) = writer_states w"
  "writer_stats (emit_error d w) = writer_stats w"
  "data_queue (emit_error d w) = data_queue w"
  "closed_files (emit_error d w) = closed_files w"
  "maxsize (emit_error d w) = maxsize w"
  by (simp_all add: emit_error_def)


lemma setitem_new: "\<not> contains d k \<Longrightarrow> setitem d k v = d @ [(k, v)]"
  unfolding setitem_def contains_def
  by (induction d) (auto split: if_splits)

section \<open>Properties of the protocol decoder\<close>





















lemma or_push_bit_eq_add:
  "0 \<le> a \<Longrightarrow> a < 2 ^ n \<Longrightarrow> push_bit n b OR a = a + 2 ^ n * (b::int)"
  using concat_bit_eq [of n a b]
  by (simp add: concat_bit_def take_bit_int_eq_self push_bit_eq_mult or.commute mult.commute)

lemma uint8_bounds: "0 \<le> uint (w :: 8 word)" "uint (w :: 8 word) < 256" "uint (w :: 8 word) < 2 ^ 8"
  using uint_bounded [of w] by simp_all

lemma header_control:
  "push_bit 8 (uint (b2 :: 8 word)) OR uint (b1 :: 8 word) = uint b1 + 256 * uint b2"
  by (simp add: or_push_bit_eq_add uint8_bounds)

lemma header_timestamp:
  "push_bit 24 (uint (b6 :: 8 word)) OR push_bit 16 (uint (b5 :: 8 word)) OR
     push_bit 8 (uint (b4 :: 8 word)) OR uint (b3 :: 8 word)
   = uint b3 + 256 * uint b4 + 65536 * uint b5 + 16777216 * uint b6"
proof -
  have 1: "push_bit 8 (uint b4) OR uint b3 = uint b3 + 256 * uint b4"
    by (rule header_control)
  have b1: "0 \<le> uint b3 + 256 * uint b4" "uint b3 + 256 * uint b4 < 2 ^ 16"
    using uint8_bounds [of b3] uint8_bounds [of b4] by simp_all
  have 2: "push_bit 16 (uint b5) OR (uint b3 + 256 * uint b4)
           = uint b3 + 256 * uint b4 + 2 ^ 16 * uint b5"
    by (rule or_push_bit_eq_add [OF b1])
  have b2: "0 \<le> uint b3 + 256 * uint b4 + 2 ^ 16 * uint b5"
    "uint b3 + 256 * uint b4 + 2 ^ 16 * uint b5 < 2 ^ 24"
    using uint8_bounds [of b3] uint8_bounds [of b4] uint8_bounds [of b5] by simp_all
  have 3: "push_bit 24 (uint b6) OR (uint b3 + 256 * uint b4 + 2 ^ 16 * uint b5)
           = uint b3 + 256 * uint b4 + 2 ^ 16 * uint b5 + 2 ^ 24 * uint b6"
    by (rule or_push_bit_eq_add [OF b2])
  show ?thesis
    using 1 2 3 by (simp add: or.assoc)
qed

lemma parse_body_unfold:
  assumes "7 \<le> len buf"
  shows "parse_body buf =
           bind (run_blocks buf (control_of buf) field_blocks
                   ([(''timestamp'', PInt (timestamp_of buf)), (''control'', PInt (control_of buf))], 7))
                (\<lambda>s. Inr (fst s))"
proof -
  have g: "getitem buf 1 = Inr (uint (buf ! 1))" "getitem buf 2 = Inr (uint (buf ! 2))"
    "getitem buf 3 = Inr (uint (buf ! 3))" "getitem buf 4 = Inr (uint (buf ! 4))"
    "getitem buf 5 = Inr (uint (buf ! 5))" "getitem buf 6 = Inr (uint (buf ! 6))"
    using assms by (simp_all add: getitem_def)
  show ?thesis
    apply (simp only: parse_body_def g bind_Inr Let_def)
    apply (subst header_timestamp)
    apply (subst header_control)+
    apply (simp add: control_of_def timestamp_of_def)
    done
qed








text \<open>
  Claim C6. The decoder returns \<open>None\<close> for every buffer shorter than 7 bytes or whose
  first byte is not \<open>0x11\<close>; for a 7-byte buffer with tag \<open>0x11\<close> and bitmask
  \<open>0x0000\<close> it returns a dictionary holding only \<open>timestamp\<close> (bytes 3 to 6,
  little-endian) and \<open>control\<close> (bytes 1 to 2, little-endian, here 0).
\<close>

theorem parse_imu_data_header:
  "(len buf < 7 \<or> buf ! 0 \<noteq> 0x11 \<longrightarrow> parse_imu_data buf = Inr None) \<and>
   (length buf = 7 \<and> buf ! 0 = 0x11 \<and> buf ! 1 = 0 \<and> buf ! 2 = 0 \<longrightarrow>
      parse_imu_data buf =
        Inr (Some [(''timestamp'', PInt (timestamp_of buf)), (''control'', PInt 0)]))"
proof (intro conjI impI)
  assume a: "len buf < 7 \<or> buf ! 0 \<noteq> 0x11"
  show "parse_imu_data buf = Inr None"
  proof (cases "len buf < 7")
    case True
    then show ?thesis by (simp add: parse_imu_data_def)
  next
    case False
    then have "buf ! 0 \<noteq> 0x11" using a by simp
    then have "uint (buf ! 0) \<noteq> 0x11"
      by (metis uint_numeral word_uint_eq_iff numeral_eq_iff uint_bintrunc word_of_int_uint word_of_int_numeral)
    then show ?thesis using False by (simp add: parse_imu_data_def getitem_def)
  qed
next
  assume a: "length buf = 7 \<and> buf ! 0 = 0x11 \<and> buf ! 1 = 0 \<and> buf ! 2 = 0"
  then have l: "7 \<le> len buf" by (simp add: len_def)
  have c: "control_of buf = 0" using a by (simp add: control_of_def)
  have "run_blocks buf 0 field_blocks s = Inr s" for s
    by (cases s) (simp add: field_blocks_def run_block_def)
  then have "parse_body buf =
      Inr [(''timestamp'', PInt (timestamp_of buf)), (''control'', PInt 0)]"
    unfolding parse_body_unfold [OF l] c by simp
  moreover have "getitem buf 0 = Inr 0x11"
    using a l by (simp add: getitem_def)
  ultimately show "parse_imu_data buf =
      Inr (Some [(''timestamp'', PInt (timestamp_of buf)), (''control'', PInt 0)])"
    using l by (simp add: parse_imu_data_def)
qed

text \<open>
  The theorem at a buffer with a wrong tag, at a short buffer and at a 7-byte header.
\<close>

theorem parse_imu_data_header_witness:
  "parse_imu_data [0x12, 0, 0, 1, 2, 3, 4] = Inr None \<and>
   parse_imu_data [0x11, 0, 0, 1, 2] = Inr None \<and>
   parse_imu_data [0x11, 0, 0, 1, 2, 3, 4]
     = Inr (Some [(''timestamp'', PInt 67305985), (''control'', PInt 0)])"
  using parse_imu_data_header [of "[0x12, 0, 0, 1, 2, 3, 4]"]
    parse_imu_data_header [of "[0x11, 0, 0, 1, 2]"]
    parse_imu_data_header [of "[0x11, 0, 0, 1, 2, 3, 4]"]
  by (simp add: len_def timestamp_of_def)






section \<open>Properties of the writer threads\<close>

subsection \<open>The bookkeeping invariant\<close>

lemma writer_inv_init: "writer_inv (init_writer_thread n)"
  by (simp add: writer_inv_def init_writer_thread_def keys_def)

lemma writer_inv_emit_error [simp]: "writer_inv (emit_error d w) = writer_inv w"
  by (simp add: writer_inv_def emit_error_def)

lemma writer_inv_start_writer: "writer_inv w \<Longrightarrow> writer_inv (snd (start_writer ok d p t w))"
  by (auto simp: writer_inv_def start_writer_def)

lemma writer_inv_stop_writer: "writer_inv w \<Longrightarrow> writer_inv (snd (stop_writer d w))"
  by (auto simp: writer_inv_def stop_writer_def contains_keys)

lemma add_data_no_error:
  "writer_inv w \<Longrightarrow> \<exists>r. add_data u w = Inr r"
  by (auto simp: add_data_def writer_inv_def contains_keys map_of_None_keys
      split: option.splits)

lemma writer_inv_add_data:
  "writer_inv w \<Longrightarrow> add_data u w = Inr r \<Longrightarrow> writer_inv (snd r)"
  by (auto simp: add_data_def writer_inv_def contains_keys split: option.splits if_splits)

lemma writer_inv_process_data:
  "writer_inv w \<Longrightarrow> process_data ok u w = Inr w' \<Longrightarrow> writer_inv w'"
  by (auto simp: process_data_def writer_inv_def
      split: option.splits if_splits dest: map_of_Some_keys)

lemma writer_inv_finalize_writer:
  "writer_inv w \<Longrightarrow> writer_inv (finalize_writer ok d w)"
  by (auto simp: finalize_writer_def writer_inv_def emit_error_def Let_def contains_keys
      split: option.splits)

lemma writer_inv_finalize_all:
  "writer_inv w \<Longrightarrow> writer_inv (finalize_all ok ds w)"
  by (induction ds arbitrary: w) (simp_all add: writer_inv_finalize_writer)

lemma writer_inv_mark_stopping:
  "writer_inv w \<Longrightarrow> set ds \<subseteq> set (keys (writers w)) \<Longrightarrow> writer_inv (mark_stopping ds w)"
proof (induction ds arbitrary: w)
  case Nil
  then show ?case by simp
next
  case (Cons d ds)
  have "writer_inv (w\<lparr>writer_states := setitem (writer_states w) d STOPPING\<rparr>)"
    using Cons.prems by (auto simp: writer_inv_def)
  then show ?case using Cons by simp
qed

lemma writer_inv_consumer_step:
  "writer_inv w \<Longrightarrow> writer_inv (consumer_step wo co w)"
proof -
  assume inv: "writer_inv w"
  have q: "writer_inv (w\<lparr>data_queue := q\<rparr>)" for q
    using inv by (simp add: writer_inv_def)
  show ?thesis
  proof (cases "data_queue w")
    case Nil
    then show ?thesis
      using inv by (simp add: consumer_step_def check_stopping_writers_def writer_inv_finalize_all)
  next
    case (Cons u q')
    show ?thesis
    proof (cases "process_data wo u (w\<lparr>data_queue := q'\<rparr>)")
      case (Inl e)
      then show ?thesis using Cons q by (simp add: consumer_step_def)
    next
      case (Inr w')
      then show ?thesis
        using Cons writer_inv_process_data [OF q Inr] by (simp add: consumer_step_def)
    qed
  qed
qed

lemma writer_inv_apply_call: "writer_inv w \<Longrightarrow> writer_inv (apply_call c w)"
proof (cases c)
  case (AddData u)
  assume "writer_inv w"
  then show ?thesis using AddData writer_inv_add_data [of w u]
    by (auto split: sum.splits)
next
  case StopThread
  assume inv: "writer_inv w"
  have "writer_inv (w\<lparr>should_stop := True\<rparr>)" using inv by (simp add: writer_inv_def)
  then show ?thesis using StopThread
    by (simp add: stop_thread_def writer_inv_mark_stopping)
qed (simp_all add: writer_inv_start_writer writer_inv_stop_writer writer_inv_consumer_step
      cleanup_all_writers_def writer_inv_finalize_all)

lemma writer_inv_run_calls: "writer_inv w \<Longrightarrow> writer_inv (run_calls cs w)"
  by (induction cs arbitrary: w) (simp_all add: writer_inv_apply_call)

lemma distinct_filter_eq_le_1: "distinct xs \<Longrightarrow> length (filter (\<lambda>k. k = d) xs) \<le> 1"
  by (induction xs) (auto simp: filter_empty_conv)

lemma job_count_keys: "job_count w d = length (filter (\<lambda>k. k = d) (keys (writers w)))"
  by (simp add: job_count_def keys_def filter_map comp_def)

lemma job_count_le_1: "writer_inv w \<Longrightarrow> job_count w d \<le> 1"
  using distinct_filter_eq_le_1 [of "keys (writers w)" d]
  by (simp add: job_count_keys writer_inv_def)

subsection \<open>Starting a writer\<close>

lemma start_writer_existing:
  "contains (writers w) d \<Longrightarrow> start_writer open_ok d output_path now w = (False, w)"
  by (simp add: start_writer_def)

lemma start_writer_success:
  assumes "start_writer ok1 d p1 t1 w = (True, w1)"
  shows "contains (writers w1) d" and "job_count w1 d = 1" and "map_of (writers w1) d = Some []"
proof -
  have n: "\<not> contains (writers w) d" and ok: "ok1"
    using assms by (auto simp: start_writer_def split: if_splits)
  have w1: "writers w1 = setitem (writers w) d []"
    using assms n ok by (auto simp: start_writer_def)
  show "contains (writers w1) d" "map_of (writers w1) d = Some []"
    by (simp_all add: w1)
  have "d \<notin> set (keys (writers w))" using n by (simp add: contains_keys)
  then have "keys (writers w1) = keys (writers w) @ [d]"
    "filter (\<lambda>k. k = d) (keys (writers w)) = []"
    by (auto simp: w1 keys_def setitem_def update_keys filter_empty_conv)
  then show "job_count w1 d = 1" by (simp add: job_count_keys)
qed

text \<open>
  Claim C4. In every state \<open>w\<close> a writer thread can reach from its initial state, each
  device has at most one job and the four dictionaries agree (\<open>writer_inv\<close>), and every
  further call \<open>c\<close> keeps it so. \<open>start_writer\<close> for a device that has a job returns
  failure and leaves the whole state, hence the existing job, unchanged; so a second
  \<open>start_writer\<close> right after a successful one fails, and the device has exactly one job.
\<close>

theorem one_job_per_device:
  assumes "w = run_calls cs (init_writer_thread n)"
  shows "writer_inv w \<and> job_count w d \<le> 1 \<and> writer_inv (apply_call c w) \<and>
         (contains (writers w) d \<longrightarrow> start_writer open_ok d output_path now w = (False, w)) \<and>
         (start_writer ok1 d p1 t1 w = (True, w1) \<longrightarrow>
            start_writer ok2 d p2 t2 w1 = (False, w1) \<and> job_count w1 d = 1)"
proof -
  have inv: "writer_inv w"
    unfolding assms by (rule writer_inv_run_calls [OF writer_inv_init])
  show ?thesis
    using inv job_count_le_1 [OF inv, of d] writer_inv_apply_call [OF inv, of c]
      start_writer_existing [of w d] start_writer_success [of ok1 d p1 t1 w w1]
      start_writer_existing [of w1 d ok2 p2 t2]
    by simp
qed

text \<open>
  The theorem at the initial state: the first \<open>start_writer\<close> for device 0 succeeds, the
  second fails and changes nothing.
\<close>

theorem one_job_per_device_witness:
  "start_writer True (0::nat) ''b.csv'' 1
     (snd (start_writer True 0 ''a.csv'' 0 (init_writer_thread 10 :: (nat, nat) writer_thread)))
   = (False, snd (start_writer True 0 ''a.csv'' 0 (init_writer_thread 10))) \<and>
   job_count (snd (start_writer True (0::nat) ''a.csv'' 0
                (init_writer_thread 10 :: (nat, nat) writer_thread))) 0 = 1"
proof -
  let ?w = "init_writer_thread 10 :: (nat, nat) writer_thread"
  let ?w1 = "snd (start_writer True 0 ''a.csv'' 0 ?w)"
  have a: "?w = run_calls [] (init_writer_thread 10)" by simp
  have b: "start_writer True 0 ''a.csv'' 0 ?w = (True, ?w1)"
    by (simp add: start_writer_def init_writer_thread_def contains_def)
  show ?thesis
    using one_job_per_device [OF a, of 0 "StopThread" True "''a.csv''" 0 True "''a.csv''" 0 ?w1 True "''b.csv''" 1] b
    by simp
qed

subsection \<open>Adding units\<close>

lemma dropped_count_other:
  "d \<noteq> k \<Longrightarrow> dropped_count (w\<lparr>writer_stats := setitem (writer_stats w) k st\<rparr>) d = dropped_count w d"
  by (simp add: dropped_count_def)





subsection \<open>Stopping a writer\<close>

lemma files_of_append [simp]: "files_of d (cf @ cf') = files_of d cf @ files_of d cf'"
  by (simp add: files_of_def)

lemma files_of_single [simp]:
  "files_of d [(d', f)] = (if d' = d then [f] else [])"
  by (simp add: files_of_def)

lemma job_stopping_emit_error [simp]:
  "job_stopping d path rows old (emit_error d' w) = job_stopping d path rows old w"
  by (simp add: job_stopping_def)

lemma job_finalized_emit_error [simp]:
  "job_finalized d path rows old (emit_error d' w) = job_finalized d path rows old w"
  by (simp add: job_finalized_def)








lemma mark_stopping_fields [simp]:
  "writers (mark_stopping ds w) = writers w"
  "writer_configs (mark_stopping ds w) = writer_configs w"
  "closed_files (mark_stopping ds w) = closed_files w"
  by (induction ds arbitrary: w) simp_all


lemma queue_update_stopping [simp]:
  "job_stopping d path rows old (w\<lparr>data_queue := q\<rparr>) = job_stopping d path rows old w"
  by (simp add: job_stopping_def)

lemma queue_update_finalized [simp]:
  "job_finalized d path rows old (w\<lparr>data_queue := q\<rparr>) = job_finalized d path rows old w"
  by (simp add: job_finalized_def)














section \<open>Properties of the process supervisor\<close>

lemma log_message_processes [simp]: "processes (log_message m pm) = processes pm"
  by (simp add: log_message_def)


lemma send_command_keys:
  "keys (processes (snd (send_command pid message pm))) = keys (processes pm)"
  by (auto simp: send_command_def keys_def setitem_def update_keys
      split: option.splits dest: map_of_SomeD intro: rev_image_eqI)








lemma pipes_attached_log [simp]: "pipes_attached (log_message m pm) = pipes_attached pm"
  by (simp add: pipes_attached_def log_message_def)




section \<open>Properties of the device managers\<close>

subsection \<open>Connecting\<close>

lemma connect_camera_unknown_at_limit:
  assumes "\<not> contains (cameras c) cid" and "max_cameras c \<le> cam_connected_count (cameras c)"
  shows "\<not> fst (connect_camera cid w h f opened t c) \<and>
         (\<forall>k cam. map_of (cameras c) k = Some cam \<longrightarrow>
            map_of (cameras (snd (connect_camera cid w h f opened t c))) k = Some cam)"
proof -
  let ?new = "\<lparr>cam_id = cid, cam_name = get_camera_name c cid, width = default_width c,
                height = default_height c, fps = default_fps c, cam_state = CAM_DISCONNECTED,
                capture = False, cam_error_message = None, frame_timestamps = []\<rparr>"
  let ?c0 = "c\<lparr>cameras := setitem (cameras c) cid ?new\<rparr>"
  have cnt: "cam_connected_count (cameras ?c0) = cam_connected_count (cameras c)"
    using assms(1) by (simp add: setitem_new cam_connected_count_def len_def)
  have r: "connect_camera cid w h f opened t c = (False, ?c0)"
    using assms cnt by (simp add: connect_camera_def Let_def)
  have "map_of (cameras ?c0) k = Some cam" if "map_of (cameras c) k = Some cam" for k cam
    using that assms(1) by (auto simp: contains_def)
  then show ?thesis unfolding r by simp
qed

text \<open>
  Claim C7. For a known IMU device and for a known camera: \<open>connect\<close> returns success and
  changes nothing when the device is \<open>CONNECTED\<close>; it returns failure and changes nothing
  when the device is \<open>CONNECTING\<close>; and for a device that is not connected it returns
  failure and changes nothing when the number of connected devices has reached the maximum.
  For a camera not known before, \<open>connect_camera\<close> at the maximum returns failure too and
  leaves every existing camera record as it was (it only adds a disconnected record for the
  new index).
\<close>

theorem connect_prechecks:
  "(map_of (devices m) addr = Some r \<and> state (heap m r) = CONNECTED \<longrightarrow>
      connect_device addr outcome t m = (True, m)) \<and>
   (map_of (devices m) addr = Some r \<and> state (heap m r) = CONNECTING \<longrightarrow>
      connect_device addr outcome t m = (False, m)) \<and>
   (map_of (devices m) addr = Some r \<and> state (heap m r) \<noteq> CONNECTED \<and>
    max_devices m \<le> connected_count m \<longrightarrow>
      connect_device addr outcome t m = (False, m)) \<and>
   (map_of (cameras c) cid = Some cam \<and> cam_state cam = CAM_CONNECTED \<longrightarrow>
      connect_camera cid w h f opened t c = (True, c)) \<and>
   (map_of (cameras c) cid = Some cam \<and> cam_state cam = CAM_CONNECTING \<longrightarrow>
      connect_camera cid w h f opened t c = (False, c)) \<and>
   (map_of (cameras c) cid = Some cam \<and> cam_state cam \<noteq> CAM_CONNECTED \<and>
    max_cameras c \<le> cam_connected_count (cameras c) \<longrightarrow>
      connect_camera cid w h f opened t c = (False, c)) \<and>
   (\<not> contains (cameras c) cid \<and> max_cameras c \<le> cam_connected_count (cameras c) \<longrightarrow>
      \<not> fst (connect_camera cid w h f opened t c) \<and>
      (\<forall>k cam'. map_of (cameras c) k = Some cam' \<longrightarrow>
         map_of (cameras (snd (connect_camera cid w h f opened t c))) k = Some cam'))"
  using connect_camera_unknown_at_limit [of c cid w h f opened t]
  by (simp add: connect_device_def connect_camera_def contains_def Let_def)

text \<open>
  The theorem at managers whose limit of one connection is reached: connecting the connected
  device succeeds without change, connecting another device or camera fails.
\<close>

theorem connect_prechecks_witness:
  "connect_device ''AA:01'' ConnectOk 7 one_device_manager = (True, one_device_manager) \<and>
   connect_device ''AA:02'' ConnectOk 7 two_device_manager = (False, two_device_manager) \<and>
   connect_camera 0 None None None (Opened 640 480 30) 7 one_camera_manager
     = (True, one_camera_manager) \<and>
   \<not> fst (connect_camera 1 None None None (Opened 640 480 30) 7 one_camera_manager) \<and>
   map_of (cameras (snd (connect_camera 1 None None None (Opened 640 480 30) 7
                           one_camera_manager))) 0
     = map_of (cameras one_camera_manager) 0"
proof -
  have a: "map_of (devices one_device_manager) ''AA:01'' = Some 0"
    "state (heap one_device_manager 0) = CONNECTED"
    by (simp_all add: one_device_manager_def one_device_def)
  have b: "map_of (devices two_device_manager) ''AA:02'' = Some 1"
    "state (heap two_device_manager 1) \<noteq> CONNECTED"
    "max_devices two_device_manager \<le> connected_count two_device_manager"
    by (simp_all add: two_device_manager_def one_device_manager_def one_device_def
        connected_count_def len_def)
  have c: "map_of (cameras one_camera_manager) 0 = Some (snd (hd (cameras one_camera_manager)))"
    "cam_state (snd (hd (cameras one_camera_manager))) = CAM_CONNECTED"
    "\<not> contains (cameras one_camera_manager) 1"
    "max_cameras one_camera_manager \<le> cam_connected_count (cameras one_camera_manager)"
    by (simp_all add: one_camera_manager_def contains_def cam_connected_count_def len_def)
  show ?thesis
    using connect_prechecks [of one_device_manager "''AA:01''" 0 ConnectOk 7
        one_camera_manager 0 "snd (hd (cameras one_camera_manager))" None None None
        "Opened 640 480 30"]
      connect_prechecks [of two_device_manager "''AA:02''" 1 ConnectOk 7
        one_camera_manager 1 "snd (hd (cameras one_camera_manager))" None None None
        "Opened 640 480 30"]
      a b c
    by simp
qed

subsection \<open>Reconnecting\<close>










subsection \<open>Scanning\<close>




lemma scanned_flag [simp]: "scanned ds kws n0 (m\<lparr>is_scanning := b\<rparr>) = scanned ds kws n0 m"
  by (simp add: scanned_def)




end
